theory Spec2Isabelle
  imports Complex_Main
begin

section \<open>JavaScript values as the two frontends compare them\<close>

text \<open>
  The trend helpers and the Scenario Studio compare JavaScript numbers with the
  relational operators. A number is a finite value, one of the two infinities, or NaN;
  every comparison with NaN is false. The sign of zero is not modelled: the relational
  operators do not see it. A change value comes from a JSON response, so it may also be
  \<^verbatim>\<open>null\<close> or \<^verbatim>\<open>undefined\<close>; the comparison converts it first (ToNumber).
\<close>

datatype jsnum = JNaN | JNegInf | JFin real | JPosInf

datatype jsval = JNull | JUndefined | JNumber jsnum

fun ToNumber :: "jsval \<Rightarrow> jsnum" where
  "ToNumber JNull = JFin 0"
| "ToNumber JUndefined = JNaN"
| "ToNumber (JNumber n) = n"

fun js_lt :: "jsnum \<Rightarrow> jsnum \<Rightarrow> bool" where
  "js_lt JNaN y = False"
| "js_lt x JNaN = False"
| "js_lt JPosInf y = False"
| "js_lt x JNegInf = False"
| "js_lt JNegInf y = True"
| "js_lt x JPosInf = True"
| "js_lt (JFin a) (JFin b) = (a < b)"

definition js_gt :: "jsnum \<Rightarrow> jsnum \<Rightarrow> bool" where
  "js_gt x y = js_lt y x"

section \<open>The trend colours of the two frontends\<close>

text \<open>
  \<^verbatim>\<open>performance-app/frontend/src/utils/formatters.js\<close>:
  \<^verbatim>\<open>
  export const getTrendColor = (value) => {
    if (value > 0) return '#4caf50';
    if (value < 0) return '#f44336';
    return '#9e9e9e';
  };
  \<close>
\<close>

definition perf_getTrendColor :: "jsval \<Rightarrow> string" where
  "perf_getTrendColor v =
     (if js_gt (ToNumber v) (JFin 0) then ''#4caf50''
      else if js_lt (ToNumber v) (JFin 0) then ''#f44336''
      else ''#9e9e9e'')"

text \<open>
  The cost-app's \<^verbatim>\<open>utils/formatters.js\<close> (the second document of
  \<^verbatim>\<open>cost-app/frontend/src/App.js\<close>):
  \<^verbatim>\<open>
  export const getTrendColor = (value) => {
    if (value > 0) return 'error.main';
    if (value < 0) return 'success.main';
    return 'text.secondary';
  };
  \<close>
\<close>

definition cost_getTrendColor :: "jsval \<Rightarrow> string" where
  "cost_getTrendColor v =
     (if js_gt (ToNumber v) (JFin 0) then ''error.main''
      else if js_lt (ToNumber v) (JFin 0) then ''success.main''
      else ''text.secondary'')"

section \<open>The Scenario Studio's recommendation\<close>

text \<open>
  \<^verbatim>\<open>handleScenarioSubmit\<close> computes \<^verbatim>\<open>savings\<close> in a \<^verbatim>\<open>switch\<close> over the scenario
  type and then chooses the recommendation from \<^verbatim>\<open>savings\<close> alone:
  \<^verbatim>\<open>
  const recommendation = savings > 0 ? 'Proceed' : savings < -1000 ? 'Caution' : 'Review';
  \<close>
  Every branch of the switch assigns \<^verbatim>\<open>savings\<close> the result of an arithmetic
  operator, so it is always a number (possibly NaN, when a provider's price is missing).
\<close>

definition recommendation :: "jsnum \<Rightarrow> string" where
  "recommendation savings =
     (if js_gt savings (JFin 0) then ''Proceed''
      else if js_lt savings (JFin (- 1000)) then ''Caution''
      else ''Review'')"

text \<open>
  The \<^verbatim>\<open>server_scaling\<close> branch, as far as \<^verbatim>\<open>savings\<close> goes:
  \<^verbatim>\<open>
  const serverChange = parseInt(formData.server_change) || 0;
  const costPerServer = 150;
  const monthlyCostChange = serverChange * costPerServer;
  savings = -monthlyCostChange;
  \<close>
  \<open>serverChange\<close> is the integer \<^verbatim>\<open>parseInt(...) || 0\<close> yields (0 when the field does
  not parse); the product is exact in a double for every count below \<open>2 ^ 53 div 150\<close>.
  The \<^verbatim>\<open>default\<close> branch sets \<^verbatim>\<open>savings = 0\<close>.
\<close>

definition costPerServer :: int where
  "costPerServer = 150"

definition server_scaling_savings :: "int \<Rightarrow> jsnum" where
  "server_scaling_savings serverChange =
     (let monthlyCostChange = serverChange * costPerServer
      in JFin (- real_of_int monthlyCostChange))"

definition default_savings :: jsnum where
  "default_savings = JFin 0"

section \<open>The session store and the aggregation repository\<close>

text \<open>
  The dashboards only call the REST endpoints (\<^verbatim>\<open>performanceApi.js\<close>) and render what
  comes back; the repository that computes the metrics
  (\<^verbatim>\<open>shared/data_layer/repositories.py\<close> in the README's project structure) and the
  models belong to the Python backend, which the frontend code does not contain. The
  definitions of this section follow the specification's data model (section 3) and
  aggregation repository (section 4.2). Rates and latencies are real numbers;
  timestamps are seconds.
\<close>

text \<open>Modelled from the spec: the protocol enumeration of Session (the models are missing).\<close>

datatype protocol = WireGuard | OpenVPN | IKEv2 | NordLynx

text \<open>Modelled from the spec: the platform enumeration of Session (the models are missing).\<close>

datatype platform = Windows | MacOS | Linux | IOS | Android

text \<open>
  Modelled from the spec: the Session row (the models are missing). \<open>connected_flag\<close>
  is the spec's \<^verbatim>\<open>connected\<close>; \<open>connecting_time_ms\<close> is absent (\<open>None\<close>) when the
  connection was not established.
\<close>

record session =
  session_id :: nat
  server_id :: nat
  timestamp :: int
  protocol :: protocol
  platform :: platform
  connecting_time_ms :: "real option"
  connect_intent_trigger :: string
  disconnect_intent_trigger :: string
  nonet_event_count :: nat
  reconnect_event_count :: nat
  unexpected_disconnect :: bool
  has_user_rating :: bool
  is_negative_rating :: bool
  connected_flag :: bool

text \<open>
  Modelled from the spec: the one error an aggregation can end in (section 7); an empty
  result is not an error.
\<close>

datatype error = StorageError

text \<open>
  Modelled from the spec: the storage layer, an external collaborator that holds the
  Session rows and either answers a range scan or rejects the read.
\<close>

record store =
  rows :: "session list"
  readable :: bool

text \<open>Modelled from the spec: the length of a day of the \<^verbatim>\<open>days\<close> window, in seconds.\<close>

definition seconds_per_day :: int where
  "seconds_per_day = 86400"

text \<open>
  Modelled from the spec: the window of an operation, \<^verbatim>\<open>days\<close> measured back from
  now and mapped to \<^verbatim>\<open>[now - days, now]\<close>.
\<close>

definition in_window :: "int \<Rightarrow> nat \<Rightarrow> session \<Rightarrow> bool" where
  "in_window now days s \<longleftrightarrow>
     now - int days * seconds_per_day \<le> timestamp s \<and> timestamp s \<le> now"

text \<open>
  Modelled from the spec: the filtered range scan of the store; a rejected read is a
  \<open>StorageError\<close>, propagated as it is.
\<close>

definition scan :: "store \<Rightarrow> int \<Rightarrow> nat \<Rightarrow> error + session list" where
  "scan st now days =
     (if readable st then Inr (filter (in_window now days) (rows st)) else Inl StorageError)"

text \<open>
  Modelled from the spec: a rate is a ratio of counts times 100, and the division guard
  short-circuits before the divide.
\<close>

definition rate :: "nat \<Rightarrow> nat \<Rightarrow> real" where
  "rate part whole = (if whole = 0 then 0 else real part / real whole * 100)"

text \<open>
  Modelled from the spec: \<^verbatim>\<open>change_percent = (current - prior) / prior * 100\<close>, 0 if
  prior is 0.
\<close>

definition change_percent_of :: "real \<Rightarrow> real \<Rightarrow> real" where
  "change_percent_of current prior =
     (if prior = 0 then 0 else (current - prior) / prior * 100)"

text \<open>
  Modelled from the spec: \<^verbatim>\<open>connectivity_rate = connected_count / total_count * 100\<close>
  over a window or a group of sessions.
\<close>

definition connectivity_rate_of :: "session list \<Rightarrow> real" where
  "connectivity_rate_of ss = rate (length (filter connected_flag ss)) (length ss)"

text \<open>
  Modelled from the spec: a metric with its prior-period value and change; the dashboard
  reads the current value as \<^verbatim>\<open>connectivity_rate.value\<close>.
\<close>

record metric =
  metric_value :: real
  prior_value :: real
  change_percent :: real

text \<open>Modelled from the spec: the record the connectivity summary returns.\<close>

record connectivity =
  connectivity_rate :: metric
  connected_count :: nat
  total_count :: nat

text \<open>
  Modelled from the spec: the connectivity summary. The spec does not fix the prior
  period; the model takes the window of the same length that ends where the current one
  starts.
\<close>

definition connectivity_summary :: "store \<Rightarrow> int \<Rightarrow> nat \<Rightarrow> error + connectivity" where
  "connectivity_summary st now days =
     (case scan st now days of
        Inl e \<Rightarrow> Inl e
      | Inr cur \<Rightarrow>
          (case scan st (now - int days * seconds_per_day) days of
             Inl e \<Rightarrow> Inl e
           | Inr prior \<Rightarrow>
               Inr \<lparr>connectivity_rate =
                      \<lparr>metric_value = connectivity_rate_of cur,
                       prior_value = connectivity_rate_of prior,
                       change_percent =
                         change_percent_of (connectivity_rate_of cur) (connectivity_rate_of prior)\<rparr>,
                    connected_count = length (filter connected_flag cur),
                    total_count = length cur\<rparr>))"

text \<open>
  Modelled from the spec: the latencies the latency metrics range over,
  \<^verbatim>\<open>connecting_time_ms\<close> of the connected sessions only.
\<close>

definition latencies :: "session list \<Rightarrow> real list" where
  "latencies ss =
     List.map_filter (\<lambda>s. if connected_flag s then connecting_time_ms s else None) ss"

text \<open>Modelled from the spec: the mean, 0 over an empty set.\<close>

definition mean :: "real list \<Rightarrow> real" where
  "mean xs = (if xs = [] then 0 else sum_list xs / real (length xs))"

text \<open>
  Modelled from the spec: linear interpolation between the two order statistics around
  the fractional rank \<open>h\<close> of a sorted list; the upper index stops at the last element.
\<close>

definition interpolate :: "real list \<Rightarrow> real \<Rightarrow> real" where
  "interpolate ys h =
     (let lo = nat \<lfloor>h\<rfloor>; hi = min (lo + 1) (length ys - 1)
      in ys ! lo + (h - real lo) * (ys ! hi - ys ! lo))"

text \<open>
  Modelled from the spec: the percentile by linear interpolation between order
  statistics, at rank \<open>(n - 1) * p / 100\<close> of the sorted values; 0 over an empty set.
\<close>

definition percentile :: "real list \<Rightarrow> real \<Rightarrow> real" where
  "percentile xs p =
     (if xs = [] then 0
      else interpolate (sort xs) (real (length xs - 1) * p / 100))"

text \<open>
  Modelled from the spec: the record the latency metrics return (the dashboard reads
  \<^verbatim>\<open>average_latency_ms\<close>).
\<close>

record latency =
  average_latency_ms :: real
  median_latency_ms :: real
  p95_latency_ms :: real

text \<open>
  Modelled from the spec: the latency metrics, mean, median and 95th percentile over the
  connected sessions of the window.
\<close>

definition latency_metrics :: "store \<Rightarrow> int \<Rightarrow> nat \<Rightarrow> error + latency" where
  "latency_metrics st now days =
     (case scan st now days of
        Inl e \<Rightarrow> Inl e
      | Inr cur \<Rightarrow>
          Inr \<lparr>average_latency_ms = mean (latencies cur),
               median_latency_ms = percentile (latencies cur) 50,
               p95_latency_ms = percentile (latencies cur) 95\<rparr>)"

text \<open>Modelled from the spec: one row of the breakdown by protocol.\<close>

record protocol_row =
  row_protocol :: protocol
  row_session_count :: nat
  row_avg_latency_ms :: real
  row_nonet_rate :: real
  row_connectivity_rate :: real

text \<open>Modelled from the spec: the groups of the breakdown by protocol, in a fixed order.\<close>

definition protocols :: "protocol list" where
  "protocols = [WireGuard, OpenVPN, IKEv2, NordLynx]"

text \<open>
  Modelled from the spec: the metrics of one protocol's group: session count, average
  latency, nonet rate and connectivity rate. A group with no session has rates of 0.
\<close>

definition protocol_group :: "session list \<Rightarrow> protocol \<Rightarrow> protocol_row" where
  "protocol_group cur p =
     (let g = filter (\<lambda>s. protocol s = p) cur
      in \<lparr>row_protocol = p,
          row_session_count = length g,
          row_avg_latency_ms = mean (latencies g),
          row_nonet_rate = rate (length (filter (\<lambda>s. 0 < nonet_event_count s) g)) (length g),
          row_connectivity_rate = connectivity_rate_of g\<rparr>)"

text \<open>Modelled from the spec: the breakdown by protocol over the window.\<close>

definition by_protocol :: "store \<Rightarrow> int \<Rightarrow> nat \<Rightarrow> error + protocol_row list" where
  "by_protocol st now days =
     (case scan st now days of
        Inl e \<Rightarrow> Inl e
      | Inr cur \<Rightarrow> Inr (map (protocol_group cur) protocols))"

subsection \<open>A small store to evaluate the operations on\<close>

text \<open>
  Six sessions on one server. At \<open>now = 864000\<close> with a window of two days, four fall into
  the window (three of them connected), one into the prior period and one before both.
\<close>

definition example_session :: "nat \<Rightarrow> int \<Rightarrow> protocol \<Rightarrow> real option \<Rightarrow> session" where
  "example_session i t p l =
     \<lparr>session_id = i, server_id = 7, timestamp = t, protocol = p, platform = Linux,
      connecting_time_ms = l, connect_intent_trigger = ''manual'',
      disconnect_intent_trigger = ''user'', nonet_event_count = 0,
      reconnect_event_count = 0, unexpected_disconnect = False, has_user_rating = False,
      is_negative_rating = False, connected_flag = (l \<noteq> None)\<rparr>"

definition example_store :: store where
  "example_store =
     \<lparr>rows =
        [example_session 101 863000 WireGuard (Some 30),
         example_session 102 863500 OpenVPN None,
         example_session 103 863600 WireGuard (Some 10),
         example_session 104 863700 IKEv2 (Some 20),
         example_session 105 100 WireGuard (Some 5),
         example_session 106 600000 NordLynx (Some 15)],
      readable = True\<rparr>"

section \<open>Properties of the frontend code\<close>

text \<open>
  C9. The two frontends give the sign of a period-over-period change opposite colours:
  for a value above zero the performance-app's \<^verbatim>\<open>getTrendColor\<close> returns the green
  \<^verbatim>\<open>#4caf50\<close> and the cost-app's returns \<^verbatim>\<open>error.main\<close>; for a value below zero the
  performance-app returns the red \<^verbatim>\<open>#f44336\<close> and the cost-app \<^verbatim>\<open>success.main\<close>;
  at zero both return their neutral colour.
\<close>

theorem getTrendColor_opposite:
  "(js_gt (ToNumber v) (JFin 0) \<longrightarrow>
      perf_getTrendColor v = ''#4caf50'' \<and> cost_getTrendColor v = ''error.main'') \<and>
   (js_lt (ToNumber v) (JFin 0) \<longrightarrow>
      perf_getTrendColor v = ''#f44336'' \<and> cost_getTrendColor v = ''success.main'') \<and>
   (\<forall>x. 0 < x \<longrightarrow> perf_getTrendColor (JNumber (JFin x)) = ''#4caf50'' \<and>
      cost_getTrendColor (JNumber (JFin x)) = ''error.main'') \<and>
   (\<forall>x. x < 0 \<longrightarrow> perf_getTrendColor (JNumber (JFin x)) = ''#f44336'' \<and>
      cost_getTrendColor (JNumber (JFin x)) = ''success.main'') \<and>
   perf_getTrendColor (JNumber (JFin 0)) = ''#9e9e9e'' \<and>
   cost_getTrendColor (JNumber (JFin 0)) = ''text.secondary''"
proof -
  have pos_neg: "js_gt n (JFin 0) \<Longrightarrow> \<not> js_lt n (JFin 0)" for n
    by (cases n) (simp_all add: js_gt_def)
  show ?thesis
    by (simp add: perf_getTrendColor_def cost_getTrendColor_def js_gt_def)
      (use pos_neg [of "ToNumber v"] in \<open>auto simp: js_gt_def\<close>)
qed

theorem getTrendColor_opposite_witness:
  "perf_getTrendColor (JNumber (JFin 5)) = ''#4caf50'' \<and>
   cost_getTrendColor (JNumber (JFin 5)) = ''error.main'' \<and>
   perf_getTrendColor (JNumber (JFin (- 3))) = ''#f44336'' \<and>
   cost_getTrendColor (JNumber (JFin (- 3))) = ''success.main'' \<and>
   perf_getTrendColor (JNumber JPosInf) = ''#4caf50'' \<and>
   cost_getTrendColor (JNumber JNegInf) = ''success.main'' \<and>
   perf_getTrendColor (JNumber (JFin 0)) = ''#9e9e9e'' \<and>
   cost_getTrendColor (JNumber (JFin 0)) = ''text.secondary'' \<and>
   perf_getTrendColor JNull = ''#9e9e9e'' \<and>
   cost_getTrendColor JUndefined = ''text.secondary''"
  using getTrendColor_opposite [of "JNumber (JFin 5)"]
    getTrendColor_opposite [of "JNumber (JFin (- 3))"]
    getTrendColor_opposite [of "JNumber JPosInf"]
    getTrendColor_opposite [of "JNumber JNegInf"]
  by (simp add: js_gt_def perf_getTrendColor_def cost_getTrendColor_def)

text \<open>
  C10. In the Scenario Studio the recommendation is \<^verbatim>\<open>Proceed\<close> exactly when the
  computed savings are above 0, \<^verbatim>\<open>Caution\<close> exactly when they are below -1000, and
  \<^verbatim>\<open>Review\<close> otherwise; zero savings and a cost increase of at most 1000 give
  \<^verbatim>\<open>Review\<close>.
\<close>

theorem recommendation_thresholds:
  "(recommendation s = ''Proceed'' \<longleftrightarrow> js_gt s (JFin 0)) \<and>
   (recommendation s = ''Caution'' \<longleftrightarrow> js_lt s (JFin (- 1000))) \<and>
   (recommendation s = ''Review'' \<longleftrightarrow> \<not> js_gt s (JFin 0) \<and> \<not> js_lt s (JFin (- 1000))) \<and>
   recommendation (JFin 0) = ''Review'' \<and>
   (\<forall>x. - 1000 \<le> x \<and> x \<le> 0 \<longrightarrow> recommendation (JFin x) = ''Review'')"
proof (cases s)
  case (JFin x)
  then show ?thesis by (auto simp: recommendation_def js_gt_def)
qed (simp_all add: recommendation_def js_gt_def)

theorem recommendation_thresholds_witness:
  "recommendation (JFin 250) = ''Proceed'' \<and>
   recommendation (JFin (- 1500)) = ''Caution'' \<and>
   recommendation (JFin (- 1000)) = ''Review'' \<and>
   recommendation JNaN = ''Review'' \<and>
   recommendation (server_scaling_savings (- 1)) = ''Proceed'' \<and>
   recommendation (server_scaling_savings 5) = ''Review'' \<and>
   recommendation (server_scaling_savings 7) = ''Caution'' \<and>
   recommendation default_savings = ''Review''"
  using recommendation_thresholds [of "JFin 250"]
    recommendation_thresholds [of "JFin (- 1500)"]
    recommendation_thresholds [of "JFin (- 1000)"]
    recommendation_thresholds [of JNaN]
    recommendation_thresholds [of "server_scaling_savings (- 1)"]
    recommendation_thresholds [of "server_scaling_savings 5"]
    recommendation_thresholds [of "server_scaling_savings 7"]
    recommendation_thresholds [of default_savings]
  by (simp add: js_gt_def server_scaling_savings_def costPerServer_def default_savings_def)

section \<open>Properties of the aggregation repository\<close>

subsection \<open>Rates\<close>

lemma rate_bounds: "part \<le> whole \<Longrightarrow> 0 \<le> rate part whole \<and> rate part whole \<le> 100"
  by (simp add: rate_def divide_le_eq)

lemma connectivity_rate_of_bounds:
  "0 \<le> connectivity_rate_of ss \<and> connectivity_rate_of ss \<le> 100"
  unfolding connectivity_rate_of_def by (rule rate_bounds) simp

lemma protocol_group_fields:
  "row_protocol (protocol_group cur p) = p"
  "row_session_count (protocol_group cur p) = length (filter (\<lambda>s. protocol s = p) cur)"
  "row_connectivity_rate (protocol_group cur p) =
     connectivity_rate_of (filter (\<lambda>s. protocol s = p) cur)"
  by (simp_all add: protocol_group_def Let_def)

lemma connectivity_rate_of_formula:
  "connectivity_rate_of ss =
     (if length ss = 0 then 0
      else real (length (filter connected_flag ss)) / real (length ss) * 100)"
  by (simp add: connectivity_rate_of_def rate_def)

lemma connectivity_rate_of_empty: "length ss = 0 \<Longrightarrow> connectivity_rate_of ss = 0"
  by (simp add: connectivity_rate_of_def rate_def)

subsection \<open>Interpolated percentiles are monotone in the rank\<close>

lemma interpolate_between:
  assumes "sorted ys" "0 \<le> h" "h \<le> real (length ys - 1)" "ys \<noteq> []"
  shows "ys ! nat \<lfloor>h\<rfloor> \<le> interpolate ys h"
    and "interpolate ys h \<le> ys ! min (nat \<lfloor>h\<rfloor> + 1) (length ys - 1)"
proof -
  let ?lo = "nat \<lfloor>h\<rfloor>"
  let ?hi = "min (?lo + 1) (length ys - 1)"
  have lo: "real ?lo \<le> h" "h - real ?lo < 1" "h - real ?lo \<ge> 0"
    using assms(2) by linarith+
  have "?lo \<le> length ys - 1" using assms(2,3) by linarith
  moreover have "0 < length ys" using assms(4) by simp
  ultimately have le: "?lo \<le> ?hi" "?hi < length ys" by linarith+
  have d: "ys ! ?lo \<le> ys ! ?hi" using sorted_nth_mono [OF assms(1) le] .
  show "ys ! ?lo \<le> interpolate ys h"
    using d lo by (simp add: interpolate_def Let_def)
  have "(h - real ?lo) * (ys ! ?hi - ys ! ?lo) \<le> 1 * (ys ! ?hi - ys ! ?lo)"
    using d lo by (intro mult_right_mono) auto
  thus "interpolate ys h \<le> ys ! ?hi"
    by (simp add: interpolate_def Let_def)
qed

lemma interpolate_mono:
  assumes "sorted ys" "ys \<noteq> []" "0 \<le> h1" "h1 \<le> h2" "h2 \<le> real (length ys - 1)"
  shows "interpolate ys h1 \<le> interpolate ys h2"
proof (cases "\<lfloor>h1\<rfloor> = \<lfloor>h2\<rfloor>")
  case True
  let ?lo = "nat \<lfloor>h2\<rfloor>"
  let ?hi = "min (?lo + 1) (length ys - 1)"
  have "?lo \<le> length ys - 1" using assms by linarith
  moreover have "0 < length ys" using assms(2) by simp
  ultimately have le: "?lo \<le> ?hi" "?hi < length ys" by linarith+
  have d: "0 \<le> ys ! ?hi - ys ! ?lo" using sorted_nth_mono [OF assms(1) le] by simp
  have "(h1 - real ?lo) * (ys ! ?hi - ys ! ?lo) \<le> (h2 - real ?lo) * (ys ! ?hi - ys ! ?lo)"
    using d assms(4) by (intro mult_right_mono) auto
  thus ?thesis using True by (simp add: interpolate_def Let_def)
next
  case False
  hence lt: "\<lfloor>h1\<rfloor> < \<lfloor>h2\<rfloor>" using assms(4) floor_mono [of h1 h2] by linarith
  let ?lo1 = "nat \<lfloor>h1\<rfloor>" and ?lo2 = "nat \<lfloor>h2\<rfloor>"
  have h2: "0 \<le> h2" using assms by linarith
  have h1: "h1 \<le> real (length ys - 1)" using assms by linarith
  have lo2: "?lo2 \<le> length ys - 1" using assms h2 by linarith
  hence lo2': "?lo2 < length ys" using assms(2) by (cases ys) auto
  have step: "?lo1 + 1 \<le> ?lo2" using lt assms(3) by linarith
  hence "min (?lo1 + 1) (length ys - 1) \<le> ?lo2" by simp
  hence mid: "ys ! min (?lo1 + 1) (length ys - 1) \<le> ys ! ?lo2"
    using sorted_nth_mono [OF assms(1) _ lo2'] by blast
  have "interpolate ys h1 \<le> ys ! min (?lo1 + 1) (length ys - 1)"
    using interpolate_between(2) [OF assms(1) assms(3) h1 assms(2)] .
  also note mid
  also have "ys ! ?lo2 \<le> interpolate ys h2"
    using interpolate_between(1) [OF assms(1) h2 assms(5) assms(2)] .
  finally show ?thesis .
qed

lemma percentile_mono:
  assumes "0 \<le> p" "p \<le> q" "q \<le> 100"
  shows "percentile xs p \<le> percentile xs q"
proof (cases "xs = []")
  case True
  then show ?thesis by (simp add: percentile_def)
next
  case False
  let ?n = "real (length xs - 1)"
  have a: "0 \<le> ?n * p / 100" using assms by simp
  have b: "?n * p / 100 \<le> ?n * q / 100"
    using assms by (simp add: mult_left_mono divide_right_mono)
  have "?n * q / 100 \<le> ?n * 100 / 100"
    using assms by (intro divide_right_mono mult_left_mono) auto
  hence c: "?n * q / 100 \<le> real (length (sort xs) - 1)" by simp
  have ne: "sort xs \<noteq> []" using False by (metis length_sort length_0_conv)
  show ?thesis
    using interpolate_mono [OF sorted_sort ne a b c] False
    by (simp add: percentile_def)
qed


subsection \<open>The example store\<close>

lemma example_window:
  "filter (in_window 864000 2) (rows example_store) =
     [example_session 101 863000 WireGuard (Some 30),
      example_session 102 863500 OpenVPN None,
      example_session 103 863600 WireGuard (Some 10),
      example_session 104 863700 IKEv2 (Some 20)]"
  by (simp add: example_store_def example_session_def in_window_def seconds_per_day_def)

lemma example_empty_window:
  "filter (in_window 500000 2) (rows example_store) = []"
  by (simp add: example_store_def example_session_def in_window_def seconds_per_day_def)

lemma example_prior_window:
  "filter (in_window (864000 - 2 * seconds_per_day) 2) (rows example_store) =
     [example_session 106 600000 NordLynx (Some 15)]"
  "filter (in_window (500000 - 2 * seconds_per_day) 2) (rows example_store) = []"
  by (simp_all add: example_store_def example_session_def in_window_def seconds_per_day_def)

lemma example_readable: "readable example_store"
  by (simp add: example_store_def)

lemma example_latencies:
  "latencies
     [example_session 101 863000 WireGuard (Some 30),
      example_session 102 863500 OpenVPN None,
      example_session 103 863600 WireGuard (Some 10),
      example_session 104 863700 IKEv2 (Some 20)] = [30, 10, 20]"
  by (simp add: latencies_def example_session_def List.map_filter_simps)

subsection \<open>The claims\<close>

text \<open>
  C1. For every window and every group the connectivity rate is
  \<open>connected_count / total_count * 100\<close>, it lies between 0 and 100, and a window or
  group that matches no session has the rate 0 and no error. The first half is the
  connectivity summary, the second the groups of the breakdown by protocol.
\<close>

theorem connectivity_rate_in_range:
  assumes "readable st"
  shows "(\<exists>r. connectivity_summary st now days = Inr r \<and>
           total_count r = length (filter (in_window now days) (rows st)) \<and>
           connected_count r =
             length (filter connected_flag (filter (in_window now days) (rows st))) \<and>
           metric_value (connectivity_rate r) =
             (if total_count r = 0 then 0
              else real (connected_count r) / real (total_count r) * 100) \<and>
           0 \<le> metric_value (connectivity_rate r) \<and>
           metric_value (connectivity_rate r) \<le> 100 \<and>
           (total_count r = 0 \<longrightarrow> metric_value (connectivity_rate r) = 0)) \<and>
         (\<exists>rs. by_protocol st now days = Inr rs \<and> map row_protocol rs = protocols \<and>
           (\<forall>g \<in> set rs.
              row_session_count g =
                length (filter (\<lambda>s. protocol s = row_protocol g)
                  (filter (in_window now days) (rows st))) \<and>
              row_connectivity_rate g =
                (if row_session_count g = 0 then 0
                 else real (length (filter connected_flag
                     (filter (\<lambda>s. protocol s = row_protocol g)
                       (filter (in_window now days) (rows st))))) /
                   real (row_session_count g) * 100) \<and>
              0 \<le> row_connectivity_rate g \<and> row_connectivity_rate g \<le> 100 \<and>
              (row_session_count g = 0 \<longrightarrow> row_connectivity_rate g = 0)))"
proof (intro conjI)
  let ?cur = "filter (in_window now days) (rows st)"
  have scan: "scan st now days = Inr ?cur"
    using assms by (simp add: scan_def)
  have prior: "\<exists>ps. scan st (now - int days * seconds_per_day) days = Inr ps"
    using assms by (simp add: scan_def)
  show "\<exists>r. connectivity_summary st now days = Inr r \<and>
           total_count r = length ?cur \<and>
           connected_count r = length (filter connected_flag ?cur) \<and>
           metric_value (connectivity_rate r) =
             (if total_count r = 0 then 0
              else real (connected_count r) / real (total_count r) * 100) \<and>
           0 \<le> metric_value (connectivity_rate r) \<and>
           metric_value (connectivity_rate r) \<le> 100 \<and>
           (total_count r = 0 \<longrightarrow> metric_value (connectivity_rate r) = 0)"
    using prior connectivity_rate_of_bounds [of ?cur] connectivity_rate_of_formula [of ?cur]
    by (auto simp: connectivity_summary_def scan)
  have rows: "by_protocol st now days = Inr (map (protocol_group ?cur) protocols)"
    by (simp add: by_protocol_def scan)
  have names: "map row_protocol (map (protocol_group ?cur) protocols) = protocols"
    by (simp add: protocol_group_fields(1) comp_def)
  have each: "row_session_count g =
                length (filter (\<lambda>s. protocol s = row_protocol g) ?cur) \<and>
              row_connectivity_rate g =
                (if row_session_count g = 0 then 0
                 else real (length (filter connected_flag
                     (filter (\<lambda>s. protocol s = row_protocol g) ?cur))) /
                   real (row_session_count g) * 100) \<and>
              0 \<le> row_connectivity_rate g \<and> row_connectivity_rate g \<le> 100 \<and>
              (row_session_count g = 0 \<longrightarrow> row_connectivity_rate g = 0)"
    if "g \<in> set (map (protocol_group ?cur) protocols)" for g
  proof -
    from that obtain p where g: "g = protocol_group ?cur p" by auto
    let ?grp = "filter (\<lambda>s. protocol s = p) ?cur"
    show ?thesis
      unfolding g protocol_group_fields
      using connectivity_rate_of_bounds [of ?grp] connectivity_rate_of_formula [of ?grp]
        connectivity_rate_of_empty [of ?grp]
      by blast
  qed
  show "\<exists>rs. by_protocol st now days = Inr rs \<and> map row_protocol rs = protocols \<and>
           (\<forall>g \<in> set rs.
              row_session_count g =
                length (filter (\<lambda>s. protocol s = row_protocol g) ?cur) \<and>
              row_connectivity_rate g =
                (if row_session_count g = 0 then 0
                 else real (length (filter connected_flag
                     (filter (\<lambda>s. protocol s = row_protocol g) ?cur))) /
                   real (row_session_count g) * 100) \<and>
              0 \<le> row_connectivity_rate g \<and> row_connectivity_rate g \<le> 100 \<and>
              (row_session_count g = 0 \<longrightarrow> row_connectivity_rate g = 0))"
    using rows names each by blast
qed


theorem connectivity_rate_in_range_witness:
  "readable example_store \<and>
   (\<exists>r. connectivity_summary example_store 864000 2 = Inr r \<and>
      0 \<le> metric_value (connectivity_rate r) \<and> metric_value (connectivity_rate r) \<le> 100) \<and>
   connectivity_summary example_store 864000 2 =
     Inr \<lparr>connectivity_rate = \<lparr>metric_value = 75, prior_value = 100, change_percent = - 25\<rparr>,
          connected_count = 3, total_count = 4\<rparr> \<and>
   connectivity_summary example_store 500000 2 =
     Inr \<lparr>connectivity_rate = \<lparr>metric_value = 0, prior_value = 0, change_percent = 0\<rparr>,
          connected_count = 0, total_count = 0\<rparr> \<and>
   map_sum id (map row_connectivity_rate) (by_protocol example_store 864000 2) =
     Inr [100, 0, 100, 0]"
proof (intro conjI)
  show r: "readable example_store" by (rule example_readable)
  show "\<exists>r. connectivity_summary example_store 864000 2 = Inr r \<and>
      0 \<le> metric_value (connectivity_rate r) \<and> metric_value (connectivity_rate r) \<le> 100"
    using connectivity_rate_in_range [OF r, of 864000 2] by blast
  show "connectivity_summary example_store 864000 2 =
     Inr \<lparr>connectivity_rate = \<lparr>metric_value = 75, prior_value = 100, change_percent = - 25\<rparr>,
          connected_count = 3, total_count = 4\<rparr>"
    by (simp add: connectivity_summary_def scan_def example_readable example_window
        example_prior_window connectivity_rate_of_def rate_def change_percent_of_def
        example_session_def)
  show "connectivity_summary example_store 500000 2 =
     Inr \<lparr>connectivity_rate = \<lparr>metric_value = 0, prior_value = 0, change_percent = 0\<rparr>,
          connected_count = 0, total_count = 0\<rparr>"
    by (simp add: connectivity_summary_def scan_def example_readable example_empty_window
        example_prior_window connectivity_rate_of_def rate_def change_percent_of_def)
  show "map_sum id (map row_connectivity_rate) (by_protocol example_store 864000 2) =
     Inr [100, 0, 100, 0]"
    by (simp add: by_protocol_def scan_def example_readable example_window protocols_def
        protocol_group_fields connectivity_rate_of_def rate_def example_session_def)
qed

text \<open>
  C4. The percentile is monotonic in its rank: over every non-empty set of latencies the
  median (50th percentile) is at most the 95th percentile; so it is in the record the
  latency metrics return.
\<close>

theorem median_le_p95:
  "(xs \<noteq> [] \<longrightarrow> percentile xs 50 \<le> percentile xs 95) \<and>
   (latency_metrics st now days = Inr m \<longrightarrow> median_latency_ms m \<le> p95_latency_ms m)"
proof -
  have "percentile ys 50 \<le> percentile ys 95" for ys
    by (rule percentile_mono) simp_all
  thus ?thesis
    by (auto simp: latency_metrics_def split: sum.splits)
qed

theorem median_le_p95_witness:
  "[30, 10, 20 :: real] \<noteq> [] \<and>
   percentile [30, 10, 20] 50 = 20 \<and>
   percentile [30, 10, 20] 95 = 29 \<and>
   percentile [30, 10, 20] 50 \<le> percentile [30, 10, 20] 95 \<and>
   latency_metrics example_store 864000 2 =
     Inr \<lparr>average_latency_ms = 20, median_latency_ms = 20, p95_latency_ms = 29\<rparr>"
proof (intro conjI)
  show "[30, 10, 20 :: real] \<noteq> []" by simp
  show p50: "percentile [30, 10, 20] 50 = 20"
    by (simp add: percentile_def interpolate_def)
  show p95: "percentile [30, 10, 20] 95 = 29"
    by (simp add: percentile_def interpolate_def)
  show "percentile [30, 10, 20] 50 \<le> percentile [30, 10, 20] 95"
    using median_le_p95 [of "[30, 10, 20]"] by simp
  show "latency_metrics example_store 864000 2 =
     Inr \<lparr>average_latency_ms = 20, median_latency_ms = 20, p95_latency_ms = 29\<rparr>"
    by (simp add: latency_metrics_def scan_def example_readable example_window
        example_latencies p50 p95 mean_def)
qed


end
